theory Spec2Isabelle
  imports Main "HOL-Library.AList"
begin

section \<open>JavaScript strings\<close>

text \<open>
  A JavaScript string is a sequence of UTF-16 code units. A code unit is modelled as a
  natural number (below 65536 in every real string); \<open>value.length\<close> is the length of
  the list. \<open>js\<close> turns an ASCII literal into such a string.
\<close>

type_synonym code_unit = nat
type_synonym jsstring = "code_unit list"

definition js :: "string \<Rightarrow> jsstring" where
  "js s = map of_char s"

text \<open>
  The white space of \<^verbatim>\<open>\s\<close>, of \<^verbatim>\<open>String.prototype.trim\<close> and of \<^verbatim>\<open>parseInt\<close>:
  TAB, LF, VT, FF, CR, SP, NBSP, the Unicode space separators, LS, PS and U+FEFF.
\<close>

definition isWhiteSpace :: "code_unit \<Rightarrow> bool" where
  "isWhiteSpace c =
     ((9 \<le> c \<and> c \<le> 13) \<or> c = 32 \<or> c = 160 \<or> c = 5760 \<or> (8192 \<le> c \<and> c \<le> 8202)
      \<or> c = 8232 \<or> c = 8233 \<or> c = 8239 \<or> c = 8287 \<or> c = 12288 \<or> c = 65279)"

text \<open>The classes \<^verbatim>\<open>\d\<close>, \<^verbatim>\<open>[a-z]\<close> and \<^verbatim>\<open>[a-z0-9]\<close> of a regular expression without flags.\<close>

definition isDigit :: "code_unit \<Rightarrow> bool" where
  "isDigit c = (48 \<le> c \<and> c \<le> 57)"

definition isLower :: "code_unit \<Rightarrow> bool" where
  "isLower c = (97 \<le> c \<and> c \<le> 122)"

definition isLowerAlnum :: "code_unit \<Rightarrow> bool" where
  "isLowerAlnum c = (isLower c \<or> isDigit c)"

text \<open>
  \<^verbatim>\<open>String.prototype.toLowerCase\<close> belongs to the runtime. Its Unicode mapping sends into
  ASCII exactly the letters A-Z, U+212A (KELVIN SIGN, to \<open>k\<close>) and U+0130 (to \<open>i\<close> followed by
  U+0307); every other code unit is sent to a code unit outside ASCII that is white space
  only if the original is. The code only ever inspects the result for ASCII letters,
  digits and white space, so the model leaves those other code units in place.
\<close>

definition toLowerCase_unit :: "code_unit \<Rightarrow> jsstring" where
  "toLowerCase_unit c =
     (if 65 \<le> c \<and> c \<le> 90 then [c + 32]
      else if c = 8490 then [107]
      else if c = 304 then [105, 775]
      else [c])"

definition toLowerCase :: "jsstring \<Rightarrow> jsstring" where
  "toLowerCase s = concat (map toLowerCase_unit s)"

text \<open>\<^verbatim>\<open>s.split('')\<close>, \<^verbatim>\<open>a.reverse()\<close> and \<^verbatim>\<open>a.join('')\<close>.\<close>

definition split_units :: "jsstring \<Rightarrow> jsstring list" where
  "split_units s = map (\<lambda>c. [c]) s"

definition reverse :: "jsstring list \<Rightarrow> jsstring list" where
  "reverse a = rev a"

definition join_empty :: "jsstring list \<Rightarrow> jsstring" where
  "join_empty a = concat a"

text \<open>
  \<^verbatim>\<open>for (const char of value)\<close> runs the string iterator, which yields code points: a
  leading surrogate followed by a trailing surrogate is one two-unit string, every other
  code unit (an unpaired surrogate too) is a one-unit string.
\<close>

definition isLeadSurrogate :: "code_unit \<Rightarrow> bool" where
  "isLeadSurrogate c = (55296 \<le> c \<and> c \<le> 56319)"

definition isTrailSurrogate :: "code_unit \<Rightarrow> bool" where
  "isTrailSurrogate c = (56320 \<le> c \<and> c \<le> 57343)"

fun string_iterator :: "jsstring \<Rightarrow> jsstring list" where
  "string_iterator [] = []"
| "string_iterator [c] = [[c]]"
| "string_iterator (c # d # cs) =
     (if isLeadSurrogate c \<and> isTrailSurrogate d then [c, d] # string_iterator cs
      else [c] # string_iterator (d # cs))"

text \<open>The number of surrogate pairs the iterator meets, that is of characters outside the
  Basic Multilingual Plane.\<close>

fun surrogate_pairs :: "jsstring \<Rightarrow> nat" where
  "surrogate_pairs [] = 0"
| "surrogate_pairs [c] = 0"
| "surrogate_pairs (c # d # cs) =
     (if isLeadSurrogate c \<and> isTrailSurrogate d then Suc (surrogate_pairs cs)
      else surrogate_pairs (d # cs))"

text \<open>\<^verbatim>\<open>value.trim()\<close> and \<^verbatim>\<open>trimmed.split(/\s+/)\<close>.\<close>

definition trim :: "jsstring \<Rightarrow> jsstring" where
  "trim s = rev (dropWhile isWhiteSpace (rev (dropWhile isWhiteSpace s)))"

function split_ws :: "jsstring \<Rightarrow> jsstring \<Rightarrow> jsstring list" where
  "split_ws acc [] = [rev acc]"
| "split_ws acc (c # cs) =
     (if isWhiteSpace c then rev acc # split_ws [] (dropWhile isWhiteSpace cs)
      else split_ws (c # acc) cs)"
  by pat_completeness auto
termination
  by (relation "measure (\<lambda>(acc, s). length s)")
     (auto simp: le_imp_less_Suc length_dropWhile_le)

section \<open>The analyzer (services/analyzer.js)\<close>

record properties =
  plength :: int
  is_palindrome :: bool
  unique_characters :: int
  word_count :: int
  sha256_hash :: jsstring
  character_frequency_map :: "(jsstring \<times> int) list"

definition normalizeForPalindrome :: "jsstring \<Rightarrow> jsstring" where
  "normalizeForPalindrome str = filter isLowerAlnum (toLowerCase str)"

text \<open>
  \<^verbatim>\<open>character_frequency_map[char] = (character_frequency_map[char] || 0) + 1\<close>. The object
  is an association list in insertion order (JavaScript lists the digit keys first; no
  property proved here depends on the order). A missing key and a stored 0 both count as 0.
\<close>

definition bump :: "(jsstring \<times> int) list \<Rightarrow> jsstring \<Rightarrow> (jsstring \<times> int) list" where
  "bump m char =
     AList.update char
       ((case map_of m char of None \<Rightarrow> 0 | Some n \<Rightarrow> if n = 0 then 0 else n) + 1) m"

definition frequency_map :: "jsstring \<Rightarrow> (jsstring \<times> int) list" where
  "frequency_map v = foldl bump [] (string_iterator v)"

definition count_words :: "jsstring \<Rightarrow> int" where
  "count_words v =
     (let trimmed = trim v
      in if length trimmed > 0 then int (length (split_ws [] trimmed)) else 0)"

text \<open>
  \<open>analyzeString\<close>, the same in both copies of the analyzer (the second one first
  converts a non-string argument with \<^verbatim>\<open>String(value)\<close>, which is the identity on the
  strings modelled here). The SHA-256 digest comes from the \<^verbatim>\<open>crypto\<close> module and is a
  parameter.
\<close>

definition analyzeString :: "(jsstring \<Rightarrow> jsstring) \<Rightarrow> jsstring \<Rightarrow> properties" where
  "analyzeString digest v =
     (let hash = digest v;
          normalized = normalizeForPalindrome v;
          cfm = frequency_map v
      in \<lparr> plength = int (length v),
           is_palindrome = (normalized = join_empty (reverse (split_units normalized))),
           unique_characters = int (length cfm),
           word_count = count_words v,
           sha256_hash = hash,
           character_frequency_map = cfm \<rparr>)"

text \<open>The sum of all occurrence counts of a frequency map.\<close>

definition total_count :: "(jsstring \<times> int) list \<Rightarrow> int" where
  "total_count m = sum_list (map snd m)"

section \<open>JavaScript numbers and \<^verbatim>\<open>parseInt\<close>\<close>

text \<open>
  A number is \<open>NaN\<close> or an integer (the code produces no fractions). Integers are exact
  here; the runtime's doubles agree with them below \<open>2^53\<close>. Every comparison with \<open>NaN\<close>
  is false, \<open>NaN\<close> and \<open>0\<close> are falsy, \<open>-0\<close> is \<open>0\<close>.
\<close>

datatype number = NaN | Num int

fun num_add :: "number \<Rightarrow> int \<Rightarrow> number" where
  "num_add NaN k = NaN"
| "num_add (Num n) k = Num (n + k)"

fun num_less :: "number \<Rightarrow> number \<Rightarrow> bool" where
  "num_less (Num a) (Num b) = (a < b)"
| "num_less a b = False"

fun isNaN :: "number \<Rightarrow> bool" where
  "isNaN NaN = True"
| "isNaN (Num n) = False"

fun truthy :: "number option \<Rightarrow> bool" where
  "truthy None = False"
| "truthy (Some NaN) = False"
| "truthy (Some (Num n)) = (n \<noteq> 0)"

definition digit_value :: "code_unit \<Rightarrow> nat option" where
  "digit_value c =
     (if 48 \<le> c \<and> c \<le> 57 then Some (c - 48)
      else if 97 \<le> c \<and> c \<le> 122 then Some (c - 87)
      else if 65 \<le> c \<and> c \<le> 90 then Some (c - 55)
      else None)"

definition isRadixDigit :: "nat \<Rightarrow> code_unit \<Rightarrow> bool" where
  "isRadixDigit R c = (case digit_value c of None \<Rightarrow> False | Some d \<Rightarrow> d < R)"

definition math_int :: "nat \<Rightarrow> jsstring \<Rightarrow> int" where
  "math_int R Z =
     foldl (\<lambda>a c. a * int R + (case digit_value c of None \<Rightarrow> 0 | Some d \<Rightarrow> int d)) 0 Z"

text \<open>
  \<^verbatim>\<open>parseInt(string, radix)\<close> as ECMAScript defines it; radix \<open>0\<close> stands for a call
  without a radix. Leading white space is dropped, a sign is read, with no radix (or radix
  16) a prefix \<^verbatim>\<open>0x\<close> selects base 16, the longest prefix of digits is the value, and
  whatever follows the digits is ignored. No digit at all gives \<open>NaN\<close>.
\<close>

definition parseInt :: "jsstring \<Rightarrow> nat \<Rightarrow> number" where
  "parseInt string radix =
     (let S = dropWhile isWhiteSpace string;
          sign = (case S of [] \<Rightarrow> 1 | c # r \<Rightarrow> if c = 45 then - 1 else (1::int));
          S1 = (case S of [] \<Rightarrow> S | c # r \<Rightarrow> if c = 43 \<or> c = 45 then r else S)
      in if radix \<noteq> 0 \<and> (radix < 2 \<or> 36 < radix) then NaN
         else
           (let hex = ((radix = 0 \<or> radix = 16) \<and>
                       (case S1 of a # b # r \<Rightarrow> a = 48 \<and> (b = 120 \<or> b = 88) | _ \<Rightarrow> False));
                S2 = (if hex then drop 2 S1 else S1);
                R = (if hex then 16 else if radix = 0 then 10 else radix);
                Z = takeWhile (isRadixDigit R) S2
            in if Z = [] then NaN else Num (sign * math_int R Z)))"

section \<open>The store (services/storage.js)\<close>

text \<open>
  \<open>dataStore\<close> is an object used as a dictionary: an association list from id to entry, in
  insertion order. \<^verbatim>\<open>dataStore[id]\<close> is \<open>map_of store id\<close>; an entry is an object and so
  truthy, a missing id gives \<^verbatim>\<open>undefined\<close>. (Names inherited from \<^verbatim>\<open>Object.prototype\<close> are
  not modelled: the server only uses hexadecimal digests as ids.) The time of creation is the
  argument \<open>now\<close>. Every operation takes the store and returns it with its result. No
  caller writes to an entry it was handed, so entries are values here.
\<close>

record entry =
  entry_id :: jsstring
  entry_value :: jsstring
  entry_properties :: properties
  created_at :: jsstring

record data =
  data_value :: jsstring
  data_properties :: properties

type_synonym dataStore = "(jsstring \<times> entry) list"

datatype js_error = TypeError

text \<open>The copy in src/storage.js: it first refuses an empty id and missing data.\<close>

definition create :: "dataStore \<Rightarrow> jsstring \<Rightarrow> jsstring \<Rightarrow> data option \<Rightarrow> entry option \<times> dataStore" where
  "create store now ident dat =
     (if ident = [] \<or> dat = None then (None, store)
      else case map_of store ident of
        Some existing \<Rightarrow> (None, store)
      | None \<Rightarrow>
          (case dat of
             None \<Rightarrow> (None, store)
           | Some d \<Rightarrow>
               (let e = \<lparr> entry_id = ident, entry_value = data_value d,
                           entry_properties = data_properties d, created_at = now \<rparr>
                in (Some e, AList.update ident e store))))"

text \<open>The copy in src/unnamed/part_001: no such guard, so reading \<^verbatim>\<open>data.value\<close> of missing
  data throws.\<close>

definition create_001 ::
  "dataStore \<Rightarrow> jsstring \<Rightarrow> jsstring \<Rightarrow> data option \<Rightarrow> js_error + entry option \<times> dataStore" where
  "create_001 store now ident dat =
     (case map_of store ident of
        Some existing \<Rightarrow> Inr (None, store)
      | None \<Rightarrow>
          (case dat of
             None \<Rightarrow> Inl TypeError
           | Some d \<Rightarrow>
               (let fullEntry = \<lparr> entry_id = ident, entry_value = data_value d,
                                   entry_properties = data_properties d, created_at = now \<rparr>
                in Inr (Some fullEntry, AList.update ident fullEntry store))))"

datatype storage_copy = Storage_js | Part_001

definition create_of ::
  "storage_copy \<Rightarrow> dataStore \<Rightarrow> jsstring \<Rightarrow> jsstring \<Rightarrow> data option
     \<Rightarrow> js_error + entry option \<times> dataStore" where
  "create_of copy store now ident dat =
     (case copy of
        Storage_js \<Rightarrow> Inr (create store now ident dat)
      | Part_001 \<Rightarrow> create_001 store now ident dat)"

text \<open>\<open>getById\<close>, \<open>getAll\<close> and \<open>deleteById\<close> are the same in both copies.\<close>

definition getById :: "dataStore \<Rightarrow> jsstring \<Rightarrow> entry option \<times> dataStore" where
  "getById store ident = (map_of store ident, store)"

definition getAll :: "dataStore \<Rightarrow> entry list \<times> dataStore" where
  "getAll store = (map snd store, store)"

definition deleteById :: "dataStore \<Rightarrow> jsstring \<Rightarrow> bool \<times> dataStore" where
  "deleteById store ident =
     (case map_of store ident of
        None \<Rightarrow> (False, store)
      | Some existing \<Rightarrow> (True, AList.delete ident store))"

section \<open>The server (server.js)\<close>

subsection \<open>Requests and responses\<close>

text \<open>
  A request has its verb, the segments of its path, the query parameters the handlers
  read (each absent or one string, as \<^verbatim>\<open>?name=text\<close> gives it) and the \<open>value\<close> field of
  its JSON body. A response is a status with the body handed to \<^verbatim>\<open>res.json\<close>.
\<close>

datatype verb = GET | POST | DELETE

datatype json_value = JUndefined | JString jsstring | JOther

record query_params =
  is_palindrome_q :: "jsstring option"
  min_length_q :: "jsstring option"
  max_length_q :: "jsstring option"
  word_count_q :: "jsstring option"
  contains_character_q :: "jsstring option"
  query_q :: "jsstring option"

record request =
  req_verb :: verb
  req_path :: "jsstring list"
  req_query :: query_params
  req_body_value :: json_value

record filters =
  is_palindrome_filter :: "bool option"
  min_length :: "number option"
  max_length :: "number option"
  word_count_filter :: "number option"
  contains_character :: "jsstring option"

datatype body =
    ErrorBody jsstring
  | EntryBody entry
  | ListBody "entry list" int filters
  | InterpretedBody "entry list" int jsstring filters
  | NoBody

type_synonym response = "nat \<times> body"

definition sendError :: "nat \<Rightarrow> jsstring \<Rightarrow> response" where
  "sendError status message = (status, ErrorBody message)"

definition no_filters :: filters where
  "no_filters = \<lparr> is_palindrome_filter = None, min_length = None, max_length = None,
                  word_count_filter = None, contains_character = None \<rparr>"

subsection \<open>The filter callback\<close>

text \<open>
  The callback given to \<^verbatim>\<open>Array.prototype.filter\<close>; the four places that filter (two
  handlers in each copy of the server) apply the same five tests in the same order.
\<close>

definition passes :: "filters \<Rightarrow> entry \<Rightarrow> bool" where
  "passes f e =
     (let p = entry_properties e in
      if (case is_palindrome_filter f of None \<Rightarrow> False | Some b \<Rightarrow> is_palindrome p \<noteq> b)
        then False
      else if (case min_length f of None \<Rightarrow> False | Some m \<Rightarrow> num_less (Num (plength p)) m)
        then False
      else if (case max_length f of None \<Rightarrow> False | Some m \<Rightarrow> num_less m (Num (plength p)))
        then False
      else if (case word_count_filter f of None \<Rightarrow> False | Some w \<Rightarrow> Num (word_count p) \<noteq> w)
        then False
      else if (case contains_character f of
                 None \<Rightarrow> False
               | Some ch \<Rightarrow>
                   (case map_of (character_frequency_map p) ch of
                      None \<Rightarrow> True
                    | Some n \<Rightarrow> n = 0))
        then False
      else True)"

subsection \<open>\<^verbatim>\<open>includes\<close> and the regular expressions\<close>

fun starts_with :: "jsstring \<Rightarrow> jsstring \<Rightarrow> bool" where
  "starts_with s [] = True"
| "starts_with [] (p # ps) = False"
| "starts_with (c # cs) (p # ps) = (c = p \<and> starts_with cs ps)"

fun str_includes :: "jsstring \<Rightarrow> jsstring \<Rightarrow> bool" where
  "str_includes [] pat = starts_with [] pat"
| "str_includes (c # cs) pat = (starts_with (c # cs) pat \<or> str_includes cs pat)"

text \<open>
  \<^verbatim>\<open>s.match(re)\<close> without the \<^verbatim>\<open>g\<close> flag tries the expression at index 0, 1, ... and
  stops at the first index where it matches. \<open>regex_search at s\<close> does so for an expression
  given by its matcher \<open>at\<close> at one index, which returns the captured group.
\<close>

fun regex_search :: "(jsstring \<Rightarrow> jsstring option) \<Rightarrow> jsstring \<Rightarrow> jsstring option" where
  "regex_search at [] = at []"
| "regex_search at (c # cs) =
     (case at (c # cs) of Some g \<Rightarrow> Some g | None \<Rightarrow> regex_search at cs)"

text \<open>
  A literal: the rest of the string after it. \<^verbatim>\<open>\s+\<close>: greedy, the rest after the longest
  run of white space, which must not be empty (giving white space back never helps, since
  what follows in each expression is a class without white space).
\<close>

definition match_literal :: "jsstring \<Rightarrow> jsstring \<Rightarrow> jsstring option" where
  "match_literal lit s = (if starts_with s lit then Some (drop (length lit) s) else None)"

definition match_spaces :: "jsstring \<Rightarrow> jsstring option" where
  "match_spaces s =
     (if takeWhile isWhiteSpace s = [] then None else Some (dropWhile isWhiteSpace s))"

text \<open>\<^verbatim>\<open>/longer than\s+(\d+)/\<close> and \<^verbatim>\<open>/shorter than\s+(\d+)/\<close>, at one index: group 1.\<close>

definition than_number_at :: "jsstring \<Rightarrow> jsstring \<Rightarrow> jsstring option" where
  "than_number_at lit s =
     (case match_literal lit s of
        None \<Rightarrow> None
      | Some r \<Rightarrow>
          (case match_spaces r of
             None \<Rightarrow> None
           | Some r' \<Rightarrow>
               (let digits = takeWhile isDigit r'
                in if digits = [] then None else Some digits)))"

text \<open>
  \<^verbatim>\<open>/(?:contains|letter)\s+([a-z0-9])/\<close> (part_002, group 1) and
  \<^verbatim>\<open>/(contains|letter)\s+([a-z])/\<close> (server.js, group 2), at one index; \<open>cls\<close> is the class
  of the captured character. The two words start with different letters, so at most one
  alternative matches at an index.
\<close>

definition contains_letter_at :: "(code_unit \<Rightarrow> bool) \<Rightarrow> jsstring \<Rightarrow> jsstring option" where
  "contains_letter_at cls s =
     (case (case match_literal (js ''contains'') s of
              Some r \<Rightarrow> Some r
            | None \<Rightarrow> match_literal (js ''letter'') s) of
        None \<Rightarrow> None
      | Some r \<Rightarrow>
          (case match_spaces r of
             None \<Rightarrow> None
           | Some [] \<Rightarrow> None
           | Some (c # rest) \<Rightarrow> if cls c then Some [c] else None))"

subsection \<open>The natural-language parser\<close>

text \<open>The rules of src/unnamed/part_002, in the order of the source.\<close>

definition parse_002 :: "jsstring \<Rightarrow> filters" where
  "parse_002 query =
     (let lowerQuery = toLowerCase query;
          f1 = (if str_includes lowerQuery (js ''palindrome'') \<or> str_includes lowerQuery (js ''palindromic'')
                then no_filters\<lparr>is_palindrome_filter := Some True\<rparr> else no_filters);
          f2 = (if str_includes lowerQuery (js ''single word'') \<or> str_includes lowerQuery (js ''one word'')
                then f1\<lparr>word_count_filter := Some (Num 1)\<rparr> else f1);
          f3 = (case regex_search (than_number_at (js ''longer than'')) lowerQuery of
                  None \<Rightarrow> f2
                | Some g \<Rightarrow> f2\<lparr>min_length := Some (num_add (parseInt g 10) 1)\<rparr>);
          f4 = (case regex_search (than_number_at (js ''shorter than'')) lowerQuery of
                  None \<Rightarrow> f3
                | Some g \<Rightarrow> f3\<lparr>max_length := Some (num_add (parseInt g 10) (- 1))\<rparr>);
          f5 = (case regex_search (contains_letter_at isLowerAlnum) lowerQuery of
                  None \<Rightarrow> f4
                | Some g \<Rightarrow> f4\<lparr>contains_character := Some g\<rparr>)
      in if str_includes lowerQuery (js ''first vowel'')
         then f5\<lparr>contains_character := Some (js ''a'')\<rparr> else f5)"

text \<open>The rules of src/server.js: no \<open>one word\<close>, no \<open>shorter than\<close>, letters only.\<close>

definition parse_server_js :: "jsstring \<Rightarrow> filters" where
  "parse_server_js query =
     (let lowerQuery = toLowerCase query;
          f1 = (if str_includes lowerQuery (js ''palindrome'') \<or> str_includes lowerQuery (js ''palindromic'')
                then no_filters\<lparr>is_palindrome_filter := Some True\<rparr> else no_filters);
          f2 = (if str_includes lowerQuery (js ''single word'')
                then f1\<lparr>word_count_filter := Some (Num 1)\<rparr> else f1);
          f3 = (case regex_search (than_number_at (js ''longer than'')) lowerQuery of
                  None \<Rightarrow> f2
                | Some g \<Rightarrow> f2\<lparr>min_length := Some (num_add (parseInt g 0) 1)\<rparr>);
          f4 = (case regex_search (contains_letter_at isLower) lowerQuery of
                  None \<Rightarrow> f3
                | Some g \<Rightarrow> f3\<lparr>contains_character := Some g\<rparr>)
      in if str_includes lowerQuery (js ''first vowel'')
         then f4\<lparr>contains_character := Some (js ''a'')\<rparr> else f4)"

subsection \<open>The handlers\<close>

text \<open>\<^verbatim>\<open>POST /strings\<close>, the same in both copies. An exception thrown inside a handler
  reaches Express, which answers 500.\<close>

definition post_strings ::
  "storage_copy \<Rightarrow> (jsstring \<Rightarrow> jsstring) \<Rightarrow> jsstring \<Rightarrow> json_value \<Rightarrow> dataStore
     \<Rightarrow> response \<times> dataStore" where
  "post_strings storage digest now v store =
     (case v of
        JUndefined \<Rightarrow>
          (sendError 400 (js ''Missing '' @ [34] @ js ''value'' @ [34] @ js '' field in request body''),
           store)
      | JOther \<Rightarrow>
          (sendError 422
             (js ''Invalid data type for '' @ [34] @ js ''value'' @ [34] @ js '' (must be string)''),
           store)
      | JString s \<Rightarrow>
          (let props = analyzeString digest s;
               ident = sha256_hash props
           in case create_of storage store now ident
                     (Some \<lparr> data_value = s, data_properties = props \<rparr>) of
                Inl err \<Rightarrow> ((500, NoBody), store)
              | Inr (None, store') \<Rightarrow>
                  (sendError 409 (js ''String already exists in the system''), store')
              | Inr (Some newEntry, store') \<Rightarrow> ((201, EntryBody newEntry), store')))"

text \<open>\<^verbatim>\<open>GET /strings/:stringValue\<close> and \<^verbatim>\<open>DELETE /strings/:stringValue\<close>, the same in both
  copies.\<close>

definition get_string ::
  "(jsstring \<Rightarrow> jsstring) \<Rightarrow> jsstring \<Rightarrow> dataStore \<Rightarrow> response \<times> dataStore" where
  "get_string digest stringValue store =
     (let props = analyzeString digest stringValue;
          ident = sha256_hash props
      in case getById store ident of
           (None, store') \<Rightarrow> (sendError 404 (js ''String does not exist in the system''), store')
         | (Some e, store') \<Rightarrow> ((200, EntryBody e), store'))"

definition delete_string ::
  "(jsstring \<Rightarrow> jsstring) \<Rightarrow> jsstring \<Rightarrow> dataStore \<Rightarrow> response \<times> dataStore" where
  "delete_string digest stringValue store =
     (let props = analyzeString digest stringValue;
          ident = sha256_hash props
      in case deleteById store ident of
           (False, store') \<Rightarrow> (sendError 404 (js ''String does not exist in the system''), store')
         | (True, store') \<Rightarrow> ((204, NoBody), store'))"

text \<open>
  \<^verbatim>\<open>GET /strings\<close>: the \<^verbatim>\<open>try\<close> block checks the five parameters in order and throws at
  the first bad one; \<open>Inl\<close> carries the message of the exception. The two copies differ in
  the radix given to \<^verbatim>\<open>parseInt\<close> (none in server.js, 10 in part_002).
\<close>

definition check_is_palindrome :: "query_params \<Rightarrow> filters \<Rightarrow> jsstring + filters" where
  "check_is_palindrome q f =
     (case is_palindrome_q q of
        None \<Rightarrow> Inr f
      | Some s \<Rightarrow>
          if s \<noteq> js ''true'' \<and> s \<noteq> js ''false''
          then Inl (js ''is_palindrome must be '' @ [34] @ js ''true'' @ [34] @ js '' or ''
                    @ [34] @ js ''false'' @ [34])
          else Inr (f\<lparr>is_palindrome_filter := Some (s = js ''true'')\<rparr>))"

definition check_min_length :: "nat \<Rightarrow> query_params \<Rightarrow> filters \<Rightarrow> jsstring + filters" where
  "check_min_length radix q f =
     (case min_length_q q of
        None \<Rightarrow> Inr f
      | Some s \<Rightarrow>
          (let min = parseInt s radix
           in if isNaN min \<or> num_less min (Num 0)
              then Inl (js ''min_length must be a positive integer'')
              else Inr (f\<lparr>min_length := Some min\<rparr>)))"

definition check_max_length :: "nat \<Rightarrow> query_params \<Rightarrow> filters \<Rightarrow> jsstring + filters" where
  "check_max_length radix q f =
     (case max_length_q q of
        None \<Rightarrow> Inr f
      | Some s \<Rightarrow>
          (let max = parseInt s radix
           in if isNaN max \<or> num_less max (Num 0)
              then Inl (js ''max_length must be a positive integer'')
              else Inr (f\<lparr>max_length := Some max\<rparr>)))"

definition check_word_count :: "nat \<Rightarrow> query_params \<Rightarrow> filters \<Rightarrow> jsstring + filters" where
  "check_word_count radix q f =
     (case word_count_q q of
        None \<Rightarrow> Inr f
      | Some s \<Rightarrow>
          (let count = parseInt s radix
           in if isNaN count \<or> num_less count (Num 0)
              then Inl (js ''word_count must be a positive integer'')
              else Inr (f\<lparr>word_count_filter := Some count\<rparr>)))"

definition check_contains_character :: "query_params \<Rightarrow> filters \<Rightarrow> jsstring + filters" where
  "check_contains_character q f =
     (case contains_character_q q of
        None \<Rightarrow> Inr f
      | Some s \<Rightarrow>
          if length s \<noteq> 1
          then Inl (js ''contains_character must be a single character string'')
          else Inr (f\<lparr>contains_character := Some s\<rparr>))"

definition validate_query :: "nat \<Rightarrow> query_params \<Rightarrow> jsstring + filters" where
  "validate_query radix q =
     (case check_is_palindrome q no_filters of
        Inl m \<Rightarrow> Inl m
      | Inr f1 \<Rightarrow>
     (case check_min_length radix q f1 of
        Inl m \<Rightarrow> Inl m
      | Inr f2 \<Rightarrow>
     (case check_max_length radix q f2 of
        Inl m \<Rightarrow> Inl m
      | Inr f3 \<Rightarrow>
     (case check_word_count radix q f3 of
        Inl m \<Rightarrow> Inl m
      | Inr f4 \<Rightarrow> check_contains_character q f4))))"

definition get_strings :: "nat \<Rightarrow> query_params \<Rightarrow> dataStore \<Rightarrow> response \<times> dataStore" where
  "get_strings radix q store =
     (case getAll store of
        (allStrings, store') \<Rightarrow>
          (case validate_query radix q of
             Inl message \<Rightarrow> (sendError 400 (js ''Invalid query parameter: '' @ message), store')
           | Inr filtersApplied \<Rightarrow>
               (let filteredData = filter (passes filtersApplied) allStrings
                in ((200, ListBody filteredData (int (length filteredData)) filtersApplied),
                    store'))))"

text \<open>
  \<^verbatim>\<open>GET /strings/filter-by-natural-language\<close>. \<^verbatim>\<open>!query\<close> holds for a missing and for an
  empty query. The copies differ in the parser and in the test for conflicting lengths:
  part_002 asks whether both lengths are truthy, server.js whether both are defined.
\<close>

definition filter_by_natural_language_002 ::
  "jsstring option \<Rightarrow> dataStore \<Rightarrow> response \<times> dataStore" where
  "filter_by_natural_language_002 query store =
     (case query of
        None \<Rightarrow>
          (sendError 400 (js ''Missing '' @ [34] @ js ''query'' @ [34]
                          @ js '' parameter for natural language filtering''), store)
      | Some q \<Rightarrow>
          if q = []
          then (sendError 400 (js ''Missing '' @ [34] @ js ''query'' @ [34]
                               @ js '' parameter for natural language filtering''), store)
          else
            (let parsedFilters = parse_002 q
             in if truthy (min_length parsedFilters) \<and> truthy (max_length parsedFilters)
                   \<and> (case (min_length parsedFilters, max_length parsedFilters) of
                         (Some a, Some b) \<Rightarrow> num_less b a
                       | _ \<Rightarrow> False)
                then (sendError 422
                        (js ''Query parsed but resulted in conflicting length filters''), store)
                else
                  (case getAll store of
                     (allStrings, store') \<Rightarrow>
                       (let filteredData = filter (passes parsedFilters) allStrings
                        in ((200, InterpretedBody filteredData (int (length filteredData)) q
                                    parsedFilters),
                            store')))))"

definition filter_by_natural_language_server_js ::
  "jsstring option \<Rightarrow> dataStore \<Rightarrow> response \<times> dataStore" where
  "filter_by_natural_language_server_js query store =
     (case query of
        None \<Rightarrow>
          (sendError 400 (js ''Missing '' @ [34] @ js ''query'' @ [34]
                          @ js '' parameter for natural language filtering''), store)
      | Some q \<Rightarrow>
          if q = []
          then (sendError 400 (js ''Missing '' @ [34] @ js ''query'' @ [34]
                               @ js '' parameter for natural language filtering''), store)
          else
            (let parsedFilters = parse_server_js q
             in if (case (min_length parsedFilters, max_length parsedFilters) of
                      (Some a, Some b) \<Rightarrow> num_less b a
                    | _ \<Rightarrow> False)
                then (sendError 422
                        (js ''Query parsed but resulted in conflicting length filters''), store)
                else
                  (case getAll store of
                     (allStrings, store') \<Rightarrow>
                       (let filteredData = filter (passes parsedFilters) allStrings
                        in ((200, InterpretedBody filteredData (int (length filteredData)) q
                                    parsedFilters),
                            store')))))"

subsection \<open>Routing\<close>

text \<open>
  Express tries the routes in the order in which \<^verbatim>\<open>app.get\<close>, \<^verbatim>\<open>app.post\<close> and
  \<^verbatim>\<open>app.delete\<close> registered them and runs the handler of the first one whose verb and path
  match; no handler here passes the request on. A path is its list of segments; a
  \<^verbatim>\<open>:name\<close> segment matches any non-empty segment and captures it. (Express also ignores
  letter case and a trailing slash; paths are taken as the routes spell them.) A request
  that no route matches gets Express's own 404.
\<close>

datatype segment = Literal jsstring | Parameter

datatype handler = PostStrings | GetString | GetStrings | FilterByNaturalLanguage | DeleteString

type_synonym route = "verb \<times> segment list \<times> handler"

fun match_path :: "segment list \<Rightarrow> jsstring list \<Rightarrow> jsstring list option" where
  "match_path [] [] = Some []"
| "match_path (Literal l # ps) (s # ss) = (if l = s then match_path ps ss else None)"
| "match_path (Parameter # ps) (s # ss) =
     (if s = [] then None else map_option (\<lambda>captured. s # captured) (match_path ps ss))"
| "match_path ps ss = None"

fun find_route :: "route list \<Rightarrow> verb \<Rightarrow> jsstring list \<Rightarrow> (handler \<times> jsstring list) option" where
  "find_route [] v path = None"
| "find_route ((rv, pattern, h) # routes) v path =
     (if rv = v
      then (case match_path pattern path of
              Some captured \<Rightarrow> Some (h, captured)
            | None \<Rightarrow> find_route routes v path)
      else find_route routes v path)"

text \<open>The routes of src/server.js, in the order of the file.\<close>

definition routes_server_js :: "route list" where
  "routes_server_js =
     [(POST, [Literal (js ''strings'')], PostStrings),
      (GET, [Literal (js ''strings''), Parameter], GetString),
      (GET, [Literal (js ''strings'')], GetStrings),
      (GET, [Literal (js ''strings''), Literal (js ''filter-by-natural-language'')],
         FilterByNaturalLanguage),
      (DELETE, [Literal (js ''strings''), Parameter], DeleteString)]"

text \<open>The routes of src/unnamed/part_002, in the order of the file.\<close>

definition routes_002 :: "route list" where
  "routes_002 =
     [(POST, [Literal (js ''strings'')], PostStrings),
      (GET, [Literal (js ''strings''), Literal (js ''filter-by-natural-language'')],
         FilterByNaturalLanguage),
      (GET, [Literal (js ''strings''), Parameter], GetString),
      (GET, [Literal (js ''strings'')], GetStrings),
      (DELETE, [Literal (js ''strings''), Parameter], DeleteString)]"

datatype server_copy = Server_js | Part_002

definition routes_of :: "server_copy \<Rightarrow> route list" where
  "routes_of server = (case server of Server_js \<Rightarrow> routes_server_js | Part_002 \<Rightarrow> routes_002)"

definition run_handler ::
  "server_copy \<Rightarrow> storage_copy \<Rightarrow> (jsstring \<Rightarrow> jsstring) \<Rightarrow> jsstring \<Rightarrow> handler
     \<Rightarrow> jsstring list \<Rightarrow> request \<Rightarrow> dataStore \<Rightarrow> response \<times> dataStore" where
  "run_handler server storage digest now h captured req store =
     (case h of
        PostStrings \<Rightarrow> post_strings storage digest now (req_body_value req) store
      | GetString \<Rightarrow>
          (case captured of
             [stringValue] \<Rightarrow> get_string digest stringValue store
           | _ \<Rightarrow> ((500, NoBody), store))
      | GetStrings \<Rightarrow>
          get_strings (case server of Server_js \<Rightarrow> 0 | Part_002 \<Rightarrow> 10) (req_query req) store
      | FilterByNaturalLanguage \<Rightarrow>
          (case server of
             Server_js \<Rightarrow> filter_by_natural_language_server_js (query_q (req_query req)) store
           | Part_002 \<Rightarrow> filter_by_natural_language_002 (query_q (req_query req)) store)
      | DeleteString \<Rightarrow>
          (case captured of
             [stringValue] \<Rightarrow> delete_string digest stringValue store
           | _ \<Rightarrow> ((500, NoBody), store)))"

definition serve ::
  "server_copy \<Rightarrow> storage_copy \<Rightarrow> (jsstring \<Rightarrow> jsstring) \<Rightarrow> jsstring \<Rightarrow> request
     \<Rightarrow> dataStore \<Rightarrow> response \<times> dataStore" where
  "serve server storage digest now req store =
     (case find_route (routes_of server) (req_verb req) (req_path req) of
        None \<Rightarrow> ((404, NoBody), store)
      | Some (h, captured) \<Rightarrow> run_handler server storage digest now h captured req store)"

section \<open>Notions used in the statements\<close>

text \<open>A request without query parameters.\<close>

definition no_query :: query_params where
  "no_query = \<lparr> is_palindrome_q = None, min_length_q = None, max_length_q = None,
                word_count_q = None, contains_character_q = None, query_q = None \<rparr>"

text \<open>The number a string of decimal digits denotes.\<close>

definition decimal_value :: "jsstring \<Rightarrow> int" where
  "decimal_value ds = foldl (\<lambda>a c. 10 * a + (int c - 48)) 0 ds"

text \<open>\<open>pat\<close> is a substring of \<open>s\<close>.\<close>

definition occurs_in :: "jsstring \<Rightarrow> jsstring \<Rightarrow> bool" where
  "occurs_in pat s = (\<exists>pre post. s = pre @ pat @ post)"

text \<open>
  The pattern "\<open>lit\<close> N" stands at the start of \<open>s\<close>: the words \<open>lit\<close>, one or more
  white-space characters, and the decimal numeral \<open>ds\<close> with no further digit after it.
\<close>

definition than_number_here :: "jsstring \<Rightarrow> jsstring \<Rightarrow> jsstring \<Rightarrow> bool" where
  "than_number_here lit s ds =
     (\<exists>ws post. s = lit @ ws @ ds @ post \<and> ws \<noteq> [] \<and> list_all isWhiteSpace ws
        \<and> ds \<noteq> [] \<and> list_all isDigit ds
        \<and> (case post of [] \<Rightarrow> True | c # rest \<Rightarrow> \<not> isDigit c))"

text \<open>
  The pattern "contains c" or "letter c" stands at the start of \<open>s\<close>: one of the two words,
  one or more white-space characters, and the lower-case letter or digit \<open>c\<close>.
\<close>

definition contains_letter_here :: "jsstring \<Rightarrow> code_unit \<Rightarrow> bool" where
  "contains_letter_here s c =
     (\<exists>kw ws post. s = kw @ ws @ c # post \<and> (kw = js ''contains'' \<or> kw = js ''letter'')
        \<and> ws \<noteq> [] \<and> list_all isWhiteSpace ws \<and> isLowerAlnum c)"

section \<open>Palindrome detection\<close>

lemma join_reverse_split: "join_empty (reverse (split_units s)) = rev s"
  by (induction s) (simp_all add: join_empty_def reverse_def split_units_def)

lemma is_palindrome_analyzeString:
  "is_palindrome (analyzeString digest s)
     = (normalizeForPalindrome s = rev (normalizeForPalindrome s))"
  by (simp add: analyzeString_def Let_def join_reverse_split)

text \<open>
  C4. For every string \<open>s\<close>, the normalization of \<open>s\<close> is its lower-casing with every code
  unit outside \<open>a-z\<close> and \<open>0-9\<close> removed, and \<open>is_palindrome\<close> of the analysis of \<open>s\<close> is true
  exactly when that normalization equals its own reverse. The empty string normalizes to
  the empty string and is a palindrome; so are "Madam" and "A man, a plan, a canal: Panama";
  "hello" is not.
\<close>

theorem is_palindrome_iff_normalized_reads_both_ways:
  "normalizeForPalindrome s
     = filter (\<lambda>c. (97 \<le> c \<and> c \<le> 122) \<or> (48 \<le> c \<and> c \<le> 57)) (toLowerCase s)
   \<and> is_palindrome (analyzeString digest s)
       = (normalizeForPalindrome s = rev (normalizeForPalindrome s))
   \<and> normalizeForPalindrome (js '''') = js ''''
   \<and> is_palindrome (analyzeString digest (js ''''))
   \<and> is_palindrome (analyzeString digest (js ''Madam''))
   \<and> is_palindrome (analyzeString digest (js ''A man, a plan, a canal: Panama''))
   \<and> \<not> is_palindrome (analyzeString digest (js ''hello''))"
proof -
  have a: "normalizeForPalindrome s
      = filter (\<lambda>c. (97 \<le> c \<and> c \<le> 122) \<or> (48 \<le> c \<and> c \<le> 57)) (toLowerCase s)"
  proof -
    have "isLowerAlnum = (\<lambda>c. (97 \<le> c \<and> c \<le> 122) \<or> (48 \<le> c \<and> c \<le> 57))"
      by (simp add: fun_eq_iff isLowerAlnum_def isLower_def isDigit_def)
    then show ?thesis by (simp add: normalizeForPalindrome_def)
  qed
  have e: "normalizeForPalindrome (js '''') = js ''''"
    by (simp add: normalizeForPalindrome_def toLowerCase_def js_def)
  have m: "normalizeForPalindrome (js ''Madam'') = js ''madam''"
    by (simp add: normalizeForPalindrome_def toLowerCase_def toLowerCase_unit_def js_def
        isLowerAlnum_def isLower_def isDigit_def)
  have p: "normalizeForPalindrome (js ''A man, a plan, a canal: Panama'')
      = js ''amanaplanacanalpanama''"
    by (simp add: normalizeForPalindrome_def toLowerCase_def toLowerCase_unit_def js_def
        isLowerAlnum_def isLower_def isDigit_def)
  have h: "normalizeForPalindrome (js ''hello'') = js ''hello''"
    by (simp add: normalizeForPalindrome_def toLowerCase_def toLowerCase_unit_def js_def
        isLowerAlnum_def isLower_def isDigit_def)
  show ?thesis
    unfolding is_palindrome_analyzeString m p h e
    using a by (simp add: js_def)
qed

section \<open>Length and character frequencies\<close>

lemma total_count_bump: "total_count (bump m ch) = total_count m + 1"
  unfolding bump_def total_count_def
  by (induction m) (auto split: option.splits)

lemma total_count_foldl_bump: "total_count (foldl bump m cs) = total_count m + int (length cs)"
  by (induction cs arbitrary: m) (simp_all add: total_count_bump)

lemma length_string_iterator: "length s = length (string_iterator s) + surrogate_pairs s"
  by (induction s rule: string_iterator.induct) simp_all

text \<open>
  C5, as the claim states it, fails: the string made of the one character U+1F600 (the
  surrogate pair D83D DE00) has length 2, and its frequency map holds one key with count 1.
  (The digest plays no part; the identity stands in for it.)
\<close>

theorem length_differs_from_total_count_outside_bmp:
  "plength (analyzeString (\<lambda>v. v) [55357, 56832])
     \<noteq> total_count (character_frequency_map (analyzeString (\<lambda>v. v) [55357, 56832]))"
  by (simp add: analyzeString_def Let_def frequency_map_def bump_def total_count_def
      isLeadSurrogate_def isTrailSurrogate_def)

text \<open>
  C5, amended. \<open>length\<close> counts UTF-16 code units and the frequency map counts code
  points: for every string \<open>s\<close>, the length of the analysis is the sum of all occurrence
  counts plus the number of surrogate pairs of \<open>s\<close>; the two agree exactly when \<open>s\<close> has no
  surrogate pair, that is no character outside the Basic Multilingual Plane.
\<close>

theorem length_is_total_count_plus_surrogate_pairs:
  "plength (analyzeString digest s)
     = total_count (character_frequency_map (analyzeString digest s)) + int (surrogate_pairs s)
   \<and> (plength (analyzeString digest s)
        = total_count (character_frequency_map (analyzeString digest s)))
     = (surrogate_pairs s = 0)"
proof -
  have "total_count (frequency_map s) = int (length (string_iterator s))"
    unfolding frequency_map_def total_count_foldl_bump by (simp add: total_count_def)
  moreover have "int (length s) = int (length (string_iterator s)) + int (surrogate_pairs s)"
    using length_string_iterator [of s] by simp
  ultimately show ?thesis
    by (simp add: analyzeString_def Let_def)
qed

section \<open>The store: creating twice\<close>

lemma create_present:
  "map_of store ident = Some existing \<Longrightarrow> create_of copy store now ident dat = Inr (None, store)"
  by (cases copy) (simp_all add: create_of_def create_def create_001_def)

lemma post_created:
  assumes "fst (fst (post_strings copy digest now (JString v) store)) = 201"
  shows "snd (post_strings copy digest now (JString v) store)
           = AList.update (digest v)
               \<lparr> entry_id = digest v, entry_value = v,
                 entry_properties = analyzeString digest v, created_at = now \<rparr> store"
  using assms
  by (cases copy)
     (auto simp: post_strings_def create_of_def create_def create_001_def Let_def sendError_def
        analyzeString_def split: option.splits if_splits)

text \<open>
  C6. In both copies of the store, \<open>create\<close> with an id that is present returns no record
  and the store as it was, whatever the data, so the record under that id keeps its value,
  properties and time of creation. At the HTTP level: when a \<^verbatim>\<open>POST /strings\<close> of the
  value \<open>v\<close> answers 201, a second \<^verbatim>\<open>POST\<close> of \<open>v\<close>, at any later time, answers 409, leaves
  the store as the first left it, and the store still holds under the digest of \<open>v\<close> the
  record the first request created.
\<close>

theorem create_present_id_conflicts_and_keeps_store:
  "(map_of store ident = Some existing \<longrightarrow> create_of copy store now ident dat = Inr (None, store))
   \<and> (fst (fst (post_strings copy digest now (JString v) store)) = 201 \<longrightarrow>
        post_strings copy digest now' (JString v) (snd (post_strings copy digest now (JString v) store))
          = (sendError 409 (js ''String already exists in the system''),
             snd (post_strings copy digest now (JString v) store))
        \<and> map_of (snd (post_strings copy digest now (JString v) store)) (digest v)
          = Some \<lparr> entry_id = digest v, entry_value = v,
                   entry_properties = analyzeString digest v, created_at = now \<rparr>)"
proof (intro conjI impI)
  assume "map_of store ident = Some existing"
  then show "create_of copy store now ident dat = Inr (None, store)"
    by (rule create_present)
next
  assume ok: "fst (fst (post_strings copy digest now (JString v) store)) = 201"
  let ?e = "\<lparr> entry_id = digest v, entry_value = v,
              entry_properties = analyzeString digest v, created_at = now \<rparr>"
  let ?s = "snd (post_strings copy digest now (JString v) store)"
  have s: "?s = AList.update (digest v) ?e store"
    using ok by (rule post_created)
  then show m: "map_of ?s (digest v) = Some ?e"
    by (simp add: update_conv')
  have "create_of copy ?s now' (digest v) dat' = Inr (None, ?s)" for dat'
    using m by (rule create_present)
  then show "post_strings copy digest now' (JString v) ?s
      = (sendError 409 (js ''String already exists in the system''), ?s)"
    by (simp add: post_strings_def Let_def analyzeString_def)
qed

theorem create_present_id_conflicts_and_keeps_store_witness:
  "map_of [(js ''ab'', \<lparr> entry_id = js ''ab'', entry_value = js ''x'',
                         entry_properties = analyzeString (\<lambda>v. v) (js ''x''),
                         created_at = js ''t0'' \<rparr>)] (js ''ab'')
     = Some \<lparr> entry_id = js ''ab'', entry_value = js ''x'',
              entry_properties = analyzeString (\<lambda>v. v) (js ''x''), created_at = js ''t0'' \<rparr>
   \<and> create_of Storage_js
         [(js ''ab'', \<lparr> entry_id = js ''ab'', entry_value = js ''x'',
                         entry_properties = analyzeString (\<lambda>v. v) (js ''x''),
                         created_at = js ''t0'' \<rparr>)] (js ''t1'') (js ''ab'') None
     = Inr (None, [(js ''ab'', \<lparr> entry_id = js ''ab'', entry_value = js ''x'',
                         entry_properties = analyzeString (\<lambda>v. v) (js ''x''),
                         created_at = js ''t0'' \<rparr>)])
   \<and> fst (fst (post_strings Part_001 (\<lambda>v. v) (js ''t0'') (JString (js ''Madam'')) [])) = 201
   \<and> post_strings Part_001 (\<lambda>v. v) (js ''t1'') (JString (js ''Madam''))
        (snd (post_strings Part_001 (\<lambda>v. v) (js ''t0'') (JString (js ''Madam'')) []))
     = (sendError 409 (js ''String already exists in the system''),
        snd (post_strings Part_001 (\<lambda>v. v) (js ''t0'') (JString (js ''Madam'')) []))"
proof -
  have h1: "map_of [(js ''ab'', \<lparr> entry_id = js ''ab'', entry_value = js ''x'',
                         entry_properties = analyzeString (\<lambda>v. v) (js ''x''),
                         created_at = js ''t0'' \<rparr>)] (js ''ab'')
     = Some \<lparr> entry_id = js ''ab'', entry_value = js ''x'',
              entry_properties = analyzeString (\<lambda>v. v) (js ''x''), created_at = js ''t0'' \<rparr>"
    by simp
  have h2: "fst (fst (post_strings Part_001 (\<lambda>v. v) (js ''t0'') (JString (js ''Madam'')) [])) = 201"
    by (simp add: post_strings_def create_of_def create_001_def Let_def)
  show ?thesis
    using h1 h2
      create_present_id_conflicts_and_keeps_store [where store = "[(js ''ab'', \<lparr> entry_id = js ''ab'', entry_value = js ''x'',
                         entry_properties = analyzeString (\<lambda>v. v) (js ''x''),
                         created_at = js ''t0'' \<rparr>)]" and ident = "js ''ab''" and copy = Storage_js
               and now = "js ''t1''" and dat = None]
      create_present_id_conflicts_and_keeps_store [where copy = Part_001 and digest = "\<lambda>v. v" and now = "js ''t0''"
               and v = "js ''Madam''" and store = "[]" and now' = "js ''t1''"]
    by simp
qed

section \<open>Reading leaves the store as it was\<close>

lemma find_route_get:
  "find_route (routes_of server) GET path = Some (h, captured) \<Longrightarrow>
     h = GetString \<or> h = GetStrings \<or> h = FilterByNaturalLanguage"
  by (cases server)
     (auto simp: routes_of_def routes_server_js_def routes_002_def
        split: if_splits option.splits)

lemma get_strings_store: "snd (get_strings radix q store) = store"
  by (simp add: get_strings_def getAll_def Let_def split: sum.splits)

lemma nl_002_store: "snd (filter_by_natural_language_002 query store) = store"
  by (simp add: filter_by_natural_language_002_def getAll_def Let_def split: option.splits)

lemma nl_server_js_store: "snd (filter_by_natural_language_server_js query store) = store"
  by (simp add: filter_by_natural_language_server_js_def getAll_def Let_def split: option.splits)

lemma get_string_store: "snd (get_string digest v store) = store"
  by (simp add: get_string_def getById_def Let_def split: option.splits)

text \<open>
  C10. For every store, \<open>getById\<close> and \<open>getAll\<close>, the handler of \<^verbatim>\<open>GET /strings\<close> (with
  either radix), the natural-language handler of either copy and the handler of
  \<^verbatim>\<open>GET /strings/:stringValue\<close> return the store they were given; and whatever route a
  \<^verbatim>\<open>GET\<close> request takes in either copy of the server, the store after it is the store
  before it.
\<close>

theorem reading_keeps_store:
  "snd (getById store ident) = store
   \<and> snd (getAll store) = store
   \<and> snd (get_strings radix q store) = store
   \<and> snd (filter_by_natural_language_002 query store) = store
   \<and> snd (filter_by_natural_language_server_js query store) = store
   \<and> snd (get_string digest v store) = store
   \<and> (req_verb req = GET \<longrightarrow> snd (serve server storage digest now req store) = store)"
proof -
  have "snd (serve server storage digest now req store) = store" if g: "req_verb req = GET"
  proof (cases "find_route (routes_of server) GET (req_path req)")
    case None
    then show ?thesis by (simp add: serve_def g)
  next
    case (Some r)
    obtain h captured where r: "r = (h, captured)" by (cases r)
    from Some r find_route_get
    have "h = GetString \<or> h = GetStrings \<or> h = FilterByNaturalLanguage" by blast
    then show ?thesis
      using Some r
      by (auto simp: serve_def g run_handler_def get_strings_store nl_002_store
          nl_server_js_store get_string_store split: list.splits server_copy.splits)
  qed
  then show ?thesis
    by (simp add: get_strings_store nl_002_store nl_server_js_store get_string_store
        getById_def getAll_def)
qed

theorem reading_keeps_store_witness:
  "req_verb \<lparr> req_verb = GET, req_path = [js ''strings''], req_query = no_query,
              req_body_value = JUndefined \<rparr> = GET
   \<and> snd (serve Part_002 Part_001 (\<lambda>v. v) (js ''t0'')
            \<lparr> req_verb = GET, req_path = [js ''strings''], req_query = no_query,
              req_body_value = JUndefined \<rparr> []) = []"
  using reading_keeps_store [where req = "\<lparr> req_verb = GET, req_path = [js ''strings''], req_query = no_query,
              req_body_value = JUndefined \<rparr>" and server = Part_002 and storage = Part_001
              and digest = "\<lambda>v. v" and now = "js ''t0''" and store = "[]"]
  by simp

section \<open>Route precedence\<close>

text \<open>
  C1 holds of the routes of src/unnamed/part_002: a \<^verbatim>\<open>GET\<close> of
  \<^verbatim>\<open>/strings/filter-by-natural-language\<close> is answered by the natural-language handler.
\<close>

lemma part_002_sends_filter_path_to_parser:
  "serve Part_002 storage digest now
     \<lparr> req_verb = GET, req_path = [js ''strings'', js ''filter-by-natural-language''],
       req_query = q, req_body_value = b \<rparr> store
   = filter_by_natural_language_002 (query_q q) store"
  by (simp add: serve_def routes_of_def routes_002_def run_handler_def js_def)

text \<open>
  C1 fails in src/server.js, which registers \<^verbatim>\<open>/strings/:stringValue\<close> first: the same
  request, with any query, is answered by the handler of a single string, which looks up
  the text "filter-by-natural-language"; on the empty store and the query "palindrome"
  the answer is 404.
\<close>

theorem server_js_sends_filter_path_to_get_string:
  "serve Server_js storage digest now
     \<lparr> req_verb = GET, req_path = [js ''strings'', js ''filter-by-natural-language''],
       req_query = q, req_body_value = b \<rparr> store
   = get_string digest (js ''filter-by-natural-language'') store
   \<and> serve Server_js storage digest now
     \<lparr> req_verb = GET, req_path = [js ''strings'', js ''filter-by-natural-language''],
       req_query = no_query\<lparr>query_q := Some (js ''palindrome'')\<rparr>,
       req_body_value = JUndefined \<rparr> []
   = (sendError 404 (js ''String does not exist in the system''), [])"
  by (simp add: serve_def routes_of_def routes_server_js_def run_handler_def js_def
      get_string_def getById_def Let_def)

section \<open>The natural-language parser: what each rule leaves in the result\<close>

lemmas eval_defs = js_def toLowerCase_def toLowerCase_unit_def
  isLowerAlnum_def isLower_def isDigit_def isWhiteSpace_def
  than_number_at_def contains_letter_at_def match_literal_def match_spaces_def
  parseInt_def isRadixDigit_def digit_value_def math_int_def no_filters_def Let_def

lemma max_length_parse_002:
  "max_length (parse_002 q) =
     (case regex_search (than_number_at (js ''shorter than'')) (toLowerCase q) of
        None \<Rightarrow> None
      | Some g \<Rightarrow> Some (num_add (parseInt g 10) (- 1)))"
  by (simp add: parse_002_def Let_def no_filters_def split: option.splits)

lemma word_count_parse_002:
  "word_count_filter (parse_002 q) =
     (if str_includes (toLowerCase q) (js ''single word'')
         \<or> str_includes (toLowerCase q) (js ''one word'')
      then Some (Num 1) else None)"
  by (simp add: parse_002_def Let_def no_filters_def split: option.splits)

lemma contains_character_parse_002:
  "contains_character (parse_002 q) =
     (if str_includes (toLowerCase q) (js ''first vowel'') then Some (js ''a'')
      else regex_search (contains_letter_at isLowerAlnum) (toLowerCase q))"
  by (simp add: parse_002_def Let_def no_filters_def split: option.splits)

section \<open>Substrings and matches\<close>

lemma starts_with_iff: "starts_with s pat = (\<exists>post. s = pat @ post)"
  by (induction s pat rule: starts_with.induct) auto

lemma str_includes_iff: "str_includes s pat = occurs_in pat s"
proof (induction s)
  case Nil
  then show ?case by (auto simp: occurs_in_def starts_with_iff)
next
  case (Cons c cs)
  show ?case
  proof
    assume "str_includes (c # cs) pat"
    then consider "starts_with (c # cs) pat" | "str_includes cs pat" by auto
    then show "occurs_in pat (c # cs)"
    proof cases
      case 1
      then obtain post where "c # cs = pat @ post" by (auto simp: starts_with_iff)
      then have "c # cs = [] @ pat @ post" by simp
      then show ?thesis unfolding occurs_in_def by blast
    next
      case 2
      with Cons obtain pre post where "cs = pre @ pat @ post" by (auto simp: occurs_in_def)
      then have "c # cs = (c # pre) @ pat @ post" by simp
      then show ?thesis unfolding occurs_in_def by blast
    qed
  next
    assume "occurs_in pat (c # cs)"
    then obtain pre post where d: "c # cs = pre @ pat @ post" by (auto simp: occurs_in_def)
    show "str_includes (c # cs) pat"
    proof (cases pre)
      case Nil
      with d have "starts_with (c # cs) pat" by (auto simp: starts_with_iff)
      then show ?thesis by simp
    next
      case (Cons p pre')
      with d have "cs = pre' @ pat @ post" by simp
      then have "occurs_in pat cs" unfolding occurs_in_def by blast
      with Cons.IH show ?thesis by simp
    qed
  qed
qed

lemma match_literal_iff: "(match_literal lit s = Some r) = (s = lit @ r)"
  by (auto simp: match_literal_def starts_with_iff)

text \<open>\<open>takeWhile\<close> and \<open>dropWhile\<close> cut a list where the predicate first fails.\<close>

lemma span_iff:
  "(takeWhile P xs = ys \<and> dropWhile P xs = zs) =
     (xs = ys @ zs \<and> list_all P ys \<and> (case zs of [] \<Rightarrow> True | z # rest \<Rightarrow> \<not> P z))"
proof
  assume a: "takeWhile P xs = ys \<and> dropWhile P xs = zs"
  then have "xs = ys @ zs" by (metis takeWhile_dropWhile_id)
  moreover have "list_all P ys" using a by (auto simp: list_all_iff dest: set_takeWhileD)
  moreover have "case zs of [] \<Rightarrow> True | z # rest \<Rightarrow> \<not> P z"
  proof (cases zs)
    case (Cons z rest)
    with a have "dropWhile P xs = z # rest" by simp
    then have "\<not> P z" by (metis hd_dropWhile list.sel(1) list.simps(3))
    with Cons show ?thesis by simp
  qed simp
  ultimately show "xs = ys @ zs \<and> list_all P ys
      \<and> (case zs of [] \<Rightarrow> True | z # rest \<Rightarrow> \<not> P z)"
    by blast
next
  assume a: "xs = ys @ zs \<and> list_all P ys \<and> (case zs of [] \<Rightarrow> True | z # rest \<Rightarrow> \<not> P z)"
  then have tz: "takeWhile P zs = []" and dz: "dropWhile P zs = zs"
    by (cases zs; simp)+
  from a tz dz show "takeWhile P xs = ys \<and> dropWhile P xs = zs"
    by (simp add: list_all_iff takeWhile_append2 dropWhile_append2)
qed

lemma match_spaces_iff:
  "(match_spaces s = Some r) =
     (\<exists>ws. s = ws @ r \<and> ws \<noteq> [] \<and> list_all isWhiteSpace ws
        \<and> (case r of [] \<Rightarrow> True | c # rest \<Rightarrow> \<not> isWhiteSpace c))"
proof
  assume "match_spaces s = Some r"
  then have t: "takeWhile isWhiteSpace s \<noteq> []" and r: "dropWhile isWhiteSpace s = r"
    by (auto simp: match_spaces_def split: if_splits)
  have "takeWhile isWhiteSpace s = takeWhile isWhiteSpace s \<and> dropWhile isWhiteSpace s = r"
    using r by simp
  then have "s = takeWhile isWhiteSpace s @ r \<and> list_all isWhiteSpace (takeWhile isWhiteSpace s)
      \<and> (case r of [] \<Rightarrow> True | c # rest \<Rightarrow> \<not> isWhiteSpace c)"
    by (simp only: span_iff)
  with t show "\<exists>ws. s = ws @ r \<and> ws \<noteq> [] \<and> list_all isWhiteSpace ws
        \<and> (case r of [] \<Rightarrow> True | c # rest \<Rightarrow> \<not> isWhiteSpace c)"
    by blast
next
  assume "\<exists>ws. s = ws @ r \<and> ws \<noteq> [] \<and> list_all isWhiteSpace ws
        \<and> (case r of [] \<Rightarrow> True | c # rest \<Rightarrow> \<not> isWhiteSpace c)"
  then obtain ws where ne: "ws \<noteq> []"
    and a: "s = ws @ r \<and> list_all isWhiteSpace ws
        \<and> (case r of [] \<Rightarrow> True | c # rest \<Rightarrow> \<not> isWhiteSpace c)"
    by blast
  from a have "takeWhile isWhiteSpace s = ws \<and> dropWhile isWhiteSpace s = r"
    by (simp only: span_iff)
  then show "match_spaces s = Some r"
    using ne by (simp add: match_spaces_def)
qed

lemma digit_not_space: "isDigit c \<Longrightarrow> \<not> isWhiteSpace c"
  by (auto simp: isDigit_def isWhiteSpace_def)

lemma alnum_not_space: "isLowerAlnum c \<Longrightarrow> \<not> isWhiteSpace c"
  by (auto simp: isLowerAlnum_def isLower_def isDigit_def isWhiteSpace_def)

text \<open>The matcher of \<^verbatim>\<open>/lit\s+(\d+)/\<close> at one index captures \<open>ds\<close> exactly when the pattern
  with the numeral \<open>ds\<close> stands there.\<close>

lemma than_number_at_iff: "(than_number_at lit s = Some ds) = than_number_here lit s ds"
proof
  assume m: "than_number_at lit s = Some ds"
  then obtain r where r: "match_literal lit s = Some r"
    by (auto simp: than_number_at_def split: option.splits)
  with m obtain r' where r': "match_spaces r = Some r'"
    by (auto simp: than_number_at_def split: option.splits)
  from m r r' have ds: "takeWhile isDigit r' = ds" and ne: "ds \<noteq> []"
    by (auto simp: than_number_at_def Let_def split: if_splits)
  from r have s: "s = lit @ r" by (simp add: match_literal_iff)
  from r' obtain ws where ws: "r = ws @ r'" "ws \<noteq> []" "list_all isWhiteSpace ws"
    by (auto simp: match_spaces_iff)
  have "takeWhile isDigit r' = ds \<and> dropWhile isDigit r' = dropWhile isDigit r'"
    using ds by simp
  then have "r' = ds @ dropWhile isDigit r' \<and> list_all isDigit ds
      \<and> (case dropWhile isDigit r' of [] \<Rightarrow> True | z # rest \<Rightarrow> \<not> isDigit z)"
    by (simp only: span_iff)
  with s ws ne show "than_number_here lit s ds"
    unfolding than_number_here_def
    by (intro exI [of _ ws] exI [of _ "dropWhile isDigit r'"]) simp
next
  assume "than_number_here lit s ds"
  then obtain ws post where s: "s = lit @ ws @ ds @ post"
    and ws: "ws \<noteq> []" "list_all isWhiteSpace ws"
    and ds: "ds \<noteq> []" "list_all isDigit ds"
    and post: "case post of [] \<Rightarrow> True | c # rest \<Rightarrow> \<not> isDigit c"
    unfolding than_number_here_def by blast
  have l: "match_literal lit s = Some (ws @ ds @ post)"
    by (simp add: match_literal_iff s)
  have "\<not> isWhiteSpace (hd ds)"
    using ds by (cases ds) (auto dest: digit_not_space)
  then have "case ds @ post of [] \<Rightarrow> True | c # rest \<Rightarrow> \<not> isWhiteSpace c"
    using ds by (cases ds) auto
  then have sp: "match_spaces (ws @ ds @ post) = Some (ds @ post)"
    using ws by (auto simp: match_spaces_iff)
  have "takeWhile isDigit (ds @ post) = ds \<and> dropWhile isDigit (ds @ post) = post"
    using ds post by (simp only: span_iff)
  then show "than_number_at lit s = Some ds"
    using l sp ds by (simp add: than_number_at_def)
qed

text \<open>The search stops at the first index where the matcher succeeds.\<close>

lemma regex_search_here: "at s = Some g \<Longrightarrow> regex_search at s = Some g"
  by (cases s) simp_all

lemma regex_search_skip:
  "i \<le> length s \<Longrightarrow> (\<forall>j<i. at (drop j s) = None) \<Longrightarrow>
     regex_search at s = regex_search at (drop i s)"
proof (induction i arbitrary: s)
  case 0
  then show ?case by simp
next
  case (Suc i)
  then obtain c cs where s: "s = c # cs" by (cases s) auto
  from Suc.prems have "at (drop 0 s) = None" by blast
  then have h: "regex_search at s = regex_search at cs" by (simp add: s)
  have "\<forall>j<i. at (drop j cs) = None"
  proof (intro allI impI)
    fix j assume "j < i"
    then have "at (drop (Suc j) s) = None" using Suc.prems by auto
    then show "at (drop j cs) = None" by (simp add: s)
  qed
  moreover have "i \<le> length cs" using Suc.prems s by simp
  ultimately have "regex_search at cs = regex_search at (drop i cs)" by (rule Suc.IH [rotated])
  with h show ?case by (simp add: s)
qed

lemma regex_search_first:
  assumes "i \<le> length s" and "\<forall>j<i. at (drop j s) = None" and "at (drop i s) = Some g"
  shows "regex_search at s = Some g"
  using regex_search_skip [of i s at] regex_search_here [of at "drop i s" g] assms by simp

text \<open>\<^verbatim>\<open>parseInt\<close> of a captured group of digits, radix 10, is the number it denotes.\<close>

lemma math_int_decimal:
  "list_all isDigit ds \<Longrightarrow>
     foldl (\<lambda>a c. a * int 10 + (case digit_value c of None \<Rightarrow> 0 | Some d \<Rightarrow> int d)) a0 ds
       = foldl (\<lambda>a c. 10 * a + (int c - 48)) a0 ds"
  by (induction ds arbitrary: a0) (auto simp: digit_value_def isDigit_def mult.commute)

lemma parseInt_digits:
  assumes "ds \<noteq> []" "list_all isDigit ds"
  shows "parseInt ds 10 = Num (decimal_value ds)"
proof -
  obtain c cs where ds: "ds = c # cs" using assms(1) by (cases ds) auto
  have c: "isDigit c" using assms(2) ds by simp
  then have nw: "\<not> isWhiteSpace c" by (rule digit_not_space)
  have sg: "c \<noteq> 45" "c \<noteq> 43" using c by (auto simp: isDigit_def)
  have "\<And>x. isDigit x \<Longrightarrow> isRadixDigit 10 x"
    by (auto simp: isDigit_def isRadixDigit_def digit_value_def)
  then have tw: "takeWhile (isRadixDigit 10) ds = ds"
    using assms(2) by (auto simp: list_all_iff intro: takeWhile_eq_all_conv [THEN iffD2])
  show ?thesis
    using nw sg tw math_int_decimal [OF assms(2), of 0]
    by (simp add: parseInt_def Let_def ds math_int_def decimal_value_def)
qed

section \<open>Conflicting lengths\<close>

text \<open>The example of the specification is rejected by part_002: 11 and 4 are both truthy.\<close>

lemma part_002_rejects_longer_10_shorter_5:
  "filter_by_natural_language_002 (Some (js ''longer than 10 and shorter than 5'')) store
     = (sendError 422 (js ''Query parsed but resulted in conflicting length filters''), store)"
proof -
  have "parse_002 (js ''longer than 10 and shorter than 5'')
      = no_filters\<lparr>min_length := Some (Num 11), max_length := Some (Num 4)\<rparr>"
    by (simp add: parse_002_def eval_defs)
  then show ?thesis
    by (simp add: filter_by_natural_language_002_def no_filters_def js_def)
qed

text \<open>The parser of src/server.js has no rule for "shorter than": the same query leaves
  \<open>max_length\<close> undefined and is answered 200.\<close>

lemma server_js_ignores_shorter_than:
  "parse_server_js (js ''longer than 10 and shorter than 5'')
     = no_filters\<lparr>min_length := Some (Num 11)\<rparr>
   \<and> fst (fst (filter_by_natural_language_server_js
                  (Some (js ''longer than 10 and shorter than 5'')) store)) = 200"
proof -
  have "parse_server_js (js ''longer than 10 and shorter than 5'')
      = no_filters\<lparr>min_length := Some (Num 11)\<rparr>"
    by (simp add: parse_server_js_def eval_defs)
  then show ?thesis
    by (simp add: filter_by_natural_language_server_js_def no_filters_def js_def getAll_def
        Let_def)
qed

text \<open>Whenever the two derived lengths conflict and neither is 0, part_002 answers 422.\<close>

lemma part_002_rejects_conflict_unless_zero:
  assumes "q \<noteq> []"
    and "min_length (parse_002 q) = Some (Num a)" and "max_length (parse_002 q) = Some (Num b)"
    and "b < a" and "a \<noteq> 0" and "b \<noteq> 0"
  shows "filter_by_natural_language_002 (Some q) store
     = (sendError 422 (js ''Query parsed but resulted in conflicting length filters''), store)"
  using assms by (simp add: filter_by_natural_language_002_def Let_def)

text \<open>
  C2 fails in src/unnamed/part_002 when the derived \<open>max_length\<close> is 0. The query
  "longer than 10 and shorter than 1" is parsed to \<open>min_length = 11\<close> and \<open>max_length = 0\<close>;
  the test \<^verbatim>\<open>parsedFilters.min_length && parsedFilters.max_length && ...\<close> takes 0 as false,
  so for every store the answer is 200 with an empty result set, not 422.
\<close>

theorem part_002_accepts_conflict_with_max_length_zero:
  "parse_002 (js ''longer than 10 and shorter than 1'')
     = no_filters\<lparr>min_length := Some (Num 11), max_length := Some (Num 0)\<rparr>
   \<and> filter_by_natural_language_002 (Some (js ''longer than 10 and shorter than 1'')) store
     = ((200, InterpretedBody [] 0 (js ''longer than 10 and shorter than 1'')
                (no_filters\<lparr>min_length := Some (Num 11), max_length := Some (Num 0)\<rparr>)),
        store)"
proof -
  have p: "parse_002 (js ''longer than 10 and shorter than 1'')
      = no_filters\<lparr>min_length := Some (Num 11), max_length := Some (Num 0)\<rparr>"
    by (simp add: parse_002_def eval_defs)
  have "\<not> passes (no_filters\<lparr>min_length := Some (Num 11), max_length := Some (Num 0)\<rparr>) e" for e
    by (simp add: passes_def no_filters_def Let_def)
  then have "filter (passes (no_filters\<lparr>min_length := Some (Num 11),
      max_length := Some (Num 0)\<rparr>)) xs = []" for xs
    by (simp add: filter_empty_conv)
  then show ?thesis
    using p by (simp add: filter_by_natural_language_002_def getAll_def no_filters_def js_def)
qed

section \<open>The rule "shorter than N"\<close>

text \<open>
  In part_002 only the leftmost occurrence counts: the lower-cased query
  "shorter than 5 or shorter than 9" contains the pattern "shorter than 9" (at index 18),
  and the parser sets \<open>max_length\<close> to 4, not to 8.
\<close>

lemma part_002_ignores_second_shorter_than:
  "than_number_here (js ''shorter than'')
      (drop 18 (toLowerCase (js ''shorter than 5 or shorter than 9''))) (js ''9'')
   \<and> decimal_value (js ''9'') = 9
   \<and> max_length (parse_002 (js ''shorter than 5 or shorter than 9'')) = Some (Num 4)
   \<and> max_length (parse_002 (js ''shorter than 5 or shorter than 9''))
       \<noteq> Some (Num (decimal_value (js ''9'') - 1))"
proof -
  have "than_number_at (js ''shorter than'')
      (drop 18 (toLowerCase (js ''shorter than 5 or shorter than 9''))) = Some (js ''9'')"
    by (simp add: eval_defs)
  then have "than_number_here (js ''shorter than'')
      (drop 18 (toLowerCase (js ''shorter than 5 or shorter than 9''))) (js ''9'')"
    by (simp add: than_number_at_iff)
  moreover have "decimal_value (js ''9'') = 9"
    by (simp add: decimal_value_def js_def)
  moreover have "max_length (parse_002 (js ''shorter than 5 or shorter than 9'')) = Some (Num 4)"
    by (simp add: max_length_parse_002 eval_defs)
  ultimately show ?thesis by simp
qed

text \<open>
  C3 holds of the parser of src/unnamed/part_002 for the leftmost occurrence. For every
  query whose lower-cased text has the pattern "shorter than N" at index \<open>i\<close> (the words,
  white space, and the decimal numeral \<open>ds\<close> taken to its last digit) and at no earlier
  index, that parser sets \<open>max_length\<close> to the number \<open>ds\<close> denotes minus 1. (The bound on
  that number keeps the statement where the exact integers of the model are the numbers of
  the program.)
\<close>

lemma part_002_first_shorter_than_sets_max_length:
  assumes "than_number_here (js ''shorter than'') (drop i (toLowerCase q)) ds"
    and "\<forall>j<i. \<forall>ds'. \<not> than_number_here (js ''shorter than'') (drop j (toLowerCase q)) ds'"
    and "decimal_value ds < 2 ^ 53"
  shows "max_length (parse_002 q) = Some (Num (decimal_value ds - 1))"
proof -
  have here: "than_number_at (js ''shorter than'') (drop i (toLowerCase q)) = Some ds"
    using assms(1) by (simp add: than_number_at_iff)
  have ds: "ds \<noteq> []" "list_all isDigit ds"
    using assms(1) unfolding than_number_here_def by auto
  have "drop i (toLowerCase q) \<noteq> []"
    using assms(1) ds unfolding than_number_here_def by auto
  then have i: "i \<le> length (toLowerCase q)" by simp
  have "\<forall>j<i. than_number_at (js ''shorter than'') (drop j (toLowerCase q)) = None"
  proof (intro allI impI)
    fix j assume "j < i"
    with assms(2)
    have "\<forall>ds'. than_number_at (js ''shorter than'') (drop j (toLowerCase q)) \<noteq> Some ds'"
      by (simp add: than_number_at_iff)
    then show "than_number_at (js ''shorter than'') (drop j (toLowerCase q)) = None"
      by (cases "than_number_at (js ''shorter than'') (drop j (toLowerCase q))") auto
  qed
  with i here
  have "regex_search (than_number_at (js ''shorter than'')) (toLowerCase q) = Some ds"
    by (intro regex_search_first [of i]) auto
  moreover have "parseInt ds 10 = Num (decimal_value ds)"
    using ds by (rule parseInt_digits)
  ultimately show ?thesis by (simp add: max_length_parse_002)
qed

lemma part_002_first_shorter_than_example:
  "than_number_here (js ''shorter than'')
        (drop 3 (toLowerCase (js ''is Shorter than 10''))) (js ''10'')
   \<and> decimal_value (js ''10'') = 10
   \<and> max_length (parse_002 (js ''is Shorter than 10'')) = Some (Num 9)"
proof -
  have "than_number_at (js ''shorter than'')
      (drop 3 (toLowerCase (js ''is Shorter than 10''))) = Some (js ''10'')"
    by (simp add: eval_defs)
  then have h: "than_number_here (js ''shorter than'')
      (drop 3 (toLowerCase (js ''is Shorter than 10''))) (js ''10'')"
    by (simp add: than_number_at_iff)
  have "\<forall>j<3. than_number_at (js ''shorter than'')
      (drop j (toLowerCase (js ''is Shorter than 10''))) = None"
    by (simp add: eval_defs less_Suc_eq numeral_3_eq_3)
  then have n: "\<forall>j<3. \<forall>ds'. \<not> than_number_here (js ''shorter than'')
      (drop j (toLowerCase (js ''is Shorter than 10''))) ds'"
    by (simp add: than_number_at_iff [symmetric])
  have d: "decimal_value (js ''10'') = 10"
    by (simp add: decimal_value_def js_def)
  then have b: "decimal_value (js ''10'') < 2 ^ 53" by simp
  show ?thesis
    using h part_002_first_shorter_than_sets_max_length [OF h n b] d by simp
qed

text \<open>
  C3 fails in src/server.js, whose parser has no rule for "shorter than": it sets
  \<open>max_length\<close> for no query at all. The query "shorter than 5" (its own lower-casing)
  yields no filter there, while the parser of src/unnamed/part_002 sets \<open>max_length\<close> to 4.
\<close>

theorem server_js_never_sets_max_length:
  "max_length (parse_server_js q) = None
   \<and> toLowerCase (js ''shorter than 5'') = js ''shorter than 5''
   \<and> parse_server_js (js ''shorter than 5'') = no_filters
   \<and> max_length (parse_002 (js ''shorter than 5'')) = Some (Num 4)"
proof -
  have a: "max_length (parse_server_js q) = None"
    by (simp add: parse_server_js_def Let_def no_filters_def split: option.splits)
  have b: "toLowerCase (js ''shorter than 5'') = js ''shorter than 5''"
    by (simp add: js_def toLowerCase_def toLowerCase_unit_def)
  have c: "parse_server_js (js ''shorter than 5'') = no_filters"
    by (simp add: parse_server_js_def eval_defs)
  have d: "max_length (parse_002 (js ''shorter than 5'')) = Some (Num 4)"
    by (simp add: max_length_parse_002 eval_defs)
  from a b c d show ?thesis by simp
qed

section \<open>The rule "single word" or "one word"\<close>

text \<open>C7 holds of the parser of src/unnamed/part_002.\<close>

lemma part_002_single_or_one_word_sets_word_count:
  assumes "occurs_in (js ''single word'') (toLowerCase q)
    \<or> occurs_in (js ''one word'') (toLowerCase q)"
  shows "word_count_filter (parse_002 q) = Some (Num 1)"
  using assms by (simp add: word_count_parse_002 str_includes_iff)

text \<open>
  C7 fails in src/server.js, whose parser only looks for "single word": the query
  "one word" (its own lower-casing, which contains "one word") yields no filter at all.
\<close>

theorem server_js_ignores_one_word:
  "toLowerCase (js ''one word'') = js ''one word''
   \<and> word_count_filter (parse_server_js (js ''one word'')) = None
   \<and> parse_server_js (js ''one word'') = no_filters"
  by (simp add: parse_server_js_def eval_defs)

section \<open>The rule "contains c" or "letter c"\<close>

lemma letter_not_contains: "match_literal (js ''contains'') (js ''letter'' @ r) = None"
  by (simp add: match_literal_def js_def)

lemma contains_letter_at_iff:
  "(contains_letter_at isLowerAlnum s = Some g) = (\<exists>c. g = [c] \<and> contains_letter_here s c)"
proof
  assume m: "contains_letter_at isLowerAlnum s = Some g"
  define k where "k = (case match_literal (js ''contains'') s of
              Some r \<Rightarrow> Some r
            | None \<Rightarrow> match_literal (js ''letter'') s)"
  from m obtain r where r: "k = Some r"
    unfolding contains_letter_at_def k_def by (auto split: option.splits)
  then obtain kw where kw: "s = kw @ r" "kw = js ''contains'' \<or> kw = js ''letter''"
    unfolding k_def by (auto simp: match_literal_iff split: option.splits)
  from m r obtain c rest where sp: "match_spaces r = Some (c # rest)" and c: "isLowerAlnum c"
    and g: "g = [c]"
    unfolding contains_letter_at_def k_def [symmetric]
    by (auto split: option.splits list.splits if_splits)
  from sp obtain ws where ws: "r = ws @ c # rest" "ws \<noteq> []" "list_all isWhiteSpace ws"
    by (auto simp: match_spaces_iff)
  have "contains_letter_here s c"
    unfolding contains_letter_here_def
    using kw ws c by (intro exI [of _ kw] exI [of _ ws] exI [of _ rest]) simp
  with g show "\<exists>c. g = [c] \<and> contains_letter_here s c" by blast
next
  assume "\<exists>c. g = [c] \<and> contains_letter_here s c"
  then obtain c kw ws post where g: "g = [c]" and s: "s = kw @ ws @ c # post"
    and kw: "kw = js ''contains'' \<or> kw = js ''letter''"
    and ws: "ws \<noteq> []" "list_all isWhiteSpace ws" and c: "isLowerAlnum c"
    unfolding contains_letter_here_def by blast
  have k: "(case match_literal (js ''contains'') s of
              Some r \<Rightarrow> Some r
            | None \<Rightarrow> match_literal (js ''letter'') s) = Some (ws @ c # post)"
  proof -
    from kw show ?thesis
    proof
      assume "kw = js ''contains''"
      then have "match_literal (js ''contains'') s = Some (ws @ c # post)"
        by (simp add: match_literal_iff s)
      then show ?thesis by simp
    next
      assume l: "kw = js ''letter''"
      then have "match_literal (js ''contains'') s = None"
        using letter_not_contains [of "ws @ c # post"] by (simp add: s)
      moreover have "match_literal (js ''letter'') s = Some (ws @ c # post)"
        by (simp add: match_literal_iff s l)
      ultimately show ?thesis by simp
    qed
  qed
  have "match_spaces (ws @ c # post) = Some (c # post)"
    using ws alnum_not_space [OF c] by (auto simp: match_spaces_iff)
  with k c g show "contains_letter_at isLowerAlnum s = Some g"
    by (simp add: contains_letter_at_def)
qed

lemma contains_letter_here_at:
  "contains_letter_here s c \<Longrightarrow> contains_letter_at isLowerAlnum s = Some [c]"
  by (simp add: contains_letter_at_iff)

text \<open>
  Two queries in part_002. The lower-cased query "contains letter z" contains "letter z"
  (at index 9), and the parser sets \<open>contains_character\<close> to "l", the character after the
  first "contains". The query "contains z first vowel" contains "contains z", and the
  later rule for "first vowel" sets \<open>contains_character\<close> to "a". (122 is "z", 108 is "l",
  97 is "a".)
\<close>

lemma part_002_contains_letter_z_and_first_vowel:
  "contains_letter_here (drop 9 (toLowerCase (js ''contains letter z''))) 122
   \<and> contains_character (parse_002 (js ''contains letter z'')) = Some [108]
   \<and> contains_character (parse_002 (js ''contains letter z'')) \<noteq> Some [122]
   \<and> contains_letter_here (drop 0 (toLowerCase (js ''contains z first vowel''))) 122
   \<and> contains_character (parse_002 (js ''contains z first vowel'')) = Some [97]
   \<and> contains_character (parse_002 (js ''contains z first vowel'')) \<noteq> Some [122]"
proof -
  have "contains_letter_at isLowerAlnum (drop 9 (toLowerCase (js ''contains letter z'')))
      = Some [122]"
    by (simp add: eval_defs)
  then have a: "contains_letter_here (drop 9 (toLowerCase (js ''contains letter z''))) 122"
    by (simp add: contains_letter_at_iff)
  have "contains_letter_at isLowerAlnum
      (drop 0 (toLowerCase (js ''contains z first vowel''))) = Some [122]"
    by (simp add: eval_defs)
  then have b: "contains_letter_here (drop 0 (toLowerCase (js ''contains z first vowel''))) 122"
    by (simp add: contains_letter_at_iff)
  have c: "contains_character (parse_002 (js ''contains letter z'')) = Some [108]"
    by (simp add: contains_character_parse_002 eval_defs)
  have d: "contains_character (parse_002 (js ''contains z first vowel'')) = Some [97]"
    by (simp add: contains_character_parse_002 eval_defs)
  from a b c d show ?thesis by simp
qed

text \<open>
  What the parser of part_002 does for every query: when the lower-cased text contains
  "first vowel", \<open>contains_character\<close> is "a" (the later rule wins); otherwise, when the
  pattern "contains c" or "letter c" (one of the words, white space, a lower-case letter or
  a digit \<open>c\<close>) stands at index \<open>i\<close> and at no earlier index, \<open>contains_character\<close> is \<open>c\<close>.
\<close>

lemma part_002_first_contains_or_letter_sets_contains_character:
  "(occurs_in (js ''first vowel'') (toLowerCase q) \<longrightarrow>
      contains_character (parse_002 q) = Some (js ''a''))
   \<and> (\<not> occurs_in (js ''first vowel'') (toLowerCase q)
       \<and> contains_letter_here (drop i (toLowerCase q)) c
       \<and> (\<forall>j<i. \<forall>c'. \<not> contains_letter_here (drop j (toLowerCase q)) c') \<longrightarrow>
      contains_character (parse_002 q) = Some [c])"
proof (intro conjI impI)
  assume "occurs_in (js ''first vowel'') (toLowerCase q)"
  then show "contains_character (parse_002 q) = Some (js ''a'')"
    by (simp add: contains_character_parse_002 str_includes_iff)
next
  assume a: "\<not> occurs_in (js ''first vowel'') (toLowerCase q)
       \<and> contains_letter_here (drop i (toLowerCase q)) c
       \<and> (\<forall>j<i. \<forall>c'. \<not> contains_letter_here (drop j (toLowerCase q)) c')"
  then have here: "contains_letter_at isLowerAlnum (drop i (toLowerCase q)) = Some [c]"
    by (simp add: contains_letter_at_iff)
  have "drop i (toLowerCase q) \<noteq> []"
    using a unfolding contains_letter_here_def by auto
  then have i: "i \<le> length (toLowerCase q)" by simp
  have "\<forall>j<i. contains_letter_at isLowerAlnum (drop j (toLowerCase q)) = None"
  proof (intro allI impI)
    fix j assume "j < i"
    with a have "\<forall>g. contains_letter_at isLowerAlnum (drop j (toLowerCase q)) \<noteq> Some g"
      by (simp add: contains_letter_at_iff)
    then show "contains_letter_at isLowerAlnum (drop j (toLowerCase q)) = None"
      by (cases "contains_letter_at isLowerAlnum (drop j (toLowerCase q))") auto
  qed
  with i here
  have "regex_search (contains_letter_at isLowerAlnum) (toLowerCase q) = Some [c]"
    by (intro regex_search_first [of i]) auto
  with a show "contains_character (parse_002 q) = Some [c]"
    by (simp add: contains_character_parse_002 str_includes_iff)
qed

lemma part_002_first_contains_or_letter_example:
  "occurs_in (js ''first vowel'') (toLowerCase (js ''Strings with the First Vowel''))
   \<and> contains_character (parse_002 (js ''Strings with the First Vowel'')) = Some (js ''a'')
   \<and> \<not> occurs_in (js ''first vowel'') (toLowerCase (js ''it Contains 7''))
   \<and> contains_letter_here (drop 3 (toLowerCase (js ''it Contains 7''))) 55
   \<and> contains_character (parse_002 (js ''it Contains 7'')) = Some (js ''7'')"
proof -
  have v: "occurs_in (js ''first vowel'') (toLowerCase (js ''Strings with the First Vowel''))"
    unfolding str_includes_iff [symmetric] by (simp add: eval_defs)
  have nv: "\<not> occurs_in (js ''first vowel'') (toLowerCase (js ''it Contains 7''))"
    unfolding str_includes_iff [symmetric] by (simp add: eval_defs)
  have "contains_letter_at isLowerAlnum (drop 3 (toLowerCase (js ''it Contains 7'')))
      = Some [55]"
    by (simp add: eval_defs)
  then have h: "contains_letter_here (drop 3 (toLowerCase (js ''it Contains 7''))) 55"
    by (simp add: contains_letter_at_iff)
  have t: "\<forall>j<3. contains_letter_at isLowerAlnum
      (drop j (toLowerCase (js ''it Contains 7''))) = None"
    by (simp add: eval_defs less_Suc_eq numeral_3_eq_3)
  have n: "\<forall>j<3. \<forall>c'. \<not> contains_letter_here (drop j (toLowerCase (js ''it Contains 7''))) c'"
  proof (intro allI impI notI)
    fix j c'
    assume "j < (3::nat)"
      and "contains_letter_here (drop j (toLowerCase (js ''it Contains 7''))) c'"
    then show False
      using t contains_letter_here_at by fastforce
  qed
  have s: "js ''7'' = [55]" by (simp add: js_def)
  have r1: "contains_character (parse_002 (js ''Strings with the First Vowel'')) = Some (js ''a'')"
    using v part_002_first_contains_or_letter_sets_contains_character
      [where q = "js ''Strings with the First Vowel''"]
    by blast
  have r2: "contains_character (parse_002 (js ''it Contains 7'')) = Some [55]"
    using nv h n part_002_first_contains_or_letter_sets_contains_character
      [where q = "js ''it Contains 7''" and i = 3 and c = 55]
    by blast
  from v nv h r1 r2 s show ?thesis by simp
qed

text \<open>
  C8 fails in both copies of the server. The query "contains letter z" (its own
  lower-casing, which contains "letter z") gets \<open>contains_character\<close> "l" from the parser
  of part_002 and from the parser of src/server.js, not "z": the expression matches
  "contains", the space and the first letter of "letter". And the parser of src/server.js,
  whose class is \<^verbatim>\<open>[a-z]\<close>, sets nothing for "contains 7", where the parser of part_002
  sets "7".
\<close>

theorem contains_letter_z_sets_l_in_both_parsers:
  "toLowerCase (js ''contains letter z'') = js ''contains letter z''
   \<and> contains_character (parse_002 (js ''contains letter z'')) = Some (js ''l'')
   \<and> contains_character (parse_server_js (js ''contains letter z'')) = Some (js ''l'')
   \<and> contains_character (parse_002 (js ''contains 7'')) = Some (js ''7'')
   \<and> contains_character (parse_server_js (js ''contains 7'')) = None"
proof -
  have a: "toLowerCase (js ''contains letter z'') = js ''contains letter z''"
    by (simp add: js_def toLowerCase_def toLowerCase_unit_def)
  have b: "contains_character (parse_002 (js ''contains letter z'')) = Some (js ''l'')"
    by (simp add: contains_character_parse_002 eval_defs)
  have c: "contains_character (parse_server_js (js ''contains letter z'')) = Some (js ''l'')"
    by (simp add: parse_server_js_def eval_defs)
  have d: "contains_character (parse_002 (js ''contains 7'')) = Some (js ''7'')"
    by (simp add: contains_character_parse_002 eval_defs)
  have e: "contains_character (parse_server_js (js ''contains 7'')) = None"
    by (simp add: parse_server_js_def eval_defs)
  from a b c d e show ?thesis by simp
qed

section \<open>Validation of the query parameters of \<^verbatim>\<open>GET /strings\<close>\<close>

text \<open>A negative number and a text without digits are refused, and the message names the
  parameter.\<close>

lemma get_strings_rejects_negative_and_text:
  "get_strings 10 (no_query\<lparr>min_length_q := Some (js ''-1'')\<rparr>) store
     = (sendError 400 (js ''Invalid query parameter: min_length must be a positive integer''),
        store)
   \<and> get_strings 10 (no_query\<lparr>word_count_q := Some (js ''abc'')\<rparr>) store
     = (sendError 400 (js ''Invalid query parameter: word_count must be a positive integer''),
        store)"
  by (simp add: get_strings_def getAll_def validate_query_def check_is_palindrome_def
      check_min_length_def check_max_length_def check_word_count_def
      check_contains_character_def no_query_def sendError_def eval_defs)

text \<open>
  C9 fails in both copies of the server: \<^verbatim>\<open>parseInt\<close> reads the leading digits and
  ignores the rest, so \<^verbatim>\<open>min_length=3.7\<close> is accepted as 3 and \<^verbatim>\<open>max_length=5abc\<close> as 5,
  with radix 10 (part_002) and without a radix (server.js), and the answer is 200.
\<close>

theorem get_strings_accepts_trailing_garbage:
  "validate_query 10 (no_query\<lparr>min_length_q := Some (js ''3.7'')\<rparr>)
     = Inr (no_filters\<lparr>min_length := Some (Num 3)\<rparr>)
   \<and> validate_query 0 (no_query\<lparr>min_length_q := Some (js ''3.7'')\<rparr>)
     = Inr (no_filters\<lparr>min_length := Some (Num 3)\<rparr>)
   \<and> validate_query 10 (no_query\<lparr>max_length_q := Some (js ''5abc'')\<rparr>)
     = Inr (no_filters\<lparr>max_length := Some (Num 5)\<rparr>)
   \<and> validate_query 0 (no_query\<lparr>max_length_q := Some (js ''5abc'')\<rparr>)
     = Inr (no_filters\<lparr>max_length := Some (Num 5)\<rparr>)
   \<and> get_strings 10 (no_query\<lparr>min_length_q := Some (js ''3.7'')\<rparr>) store
     = ((200, ListBody (filter (passes (no_filters\<lparr>min_length := Some (Num 3)\<rparr>))
                          (map snd store))
                (int (length (filter (passes (no_filters\<lparr>min_length := Some (Num 3)\<rparr>))
                                (map snd store))))
                (no_filters\<lparr>min_length := Some (Num 3)\<rparr>)),
        store)"
proof -
  have a: "validate_query 10 (no_query\<lparr>min_length_q := Some (js ''3.7'')\<rparr>)
      = Inr (no_filters\<lparr>min_length := Some (Num 3)\<rparr>)"
    by (simp add: validate_query_def check_is_palindrome_def check_min_length_def
        check_max_length_def check_word_count_def check_contains_character_def no_query_def
        eval_defs)
  have b: "validate_query 0 (no_query\<lparr>min_length_q := Some (js ''3.7'')\<rparr>)
      = Inr (no_filters\<lparr>min_length := Some (Num 3)\<rparr>)"
    by (simp add: validate_query_def check_is_palindrome_def check_min_length_def
        check_max_length_def check_word_count_def check_contains_character_def no_query_def
        eval_defs)
  have c: "validate_query 10 (no_query\<lparr>max_length_q := Some (js ''5abc'')\<rparr>)
      = Inr (no_filters\<lparr>max_length := Some (Num 5)\<rparr>)"
    by (simp add: validate_query_def check_is_palindrome_def check_min_length_def
        check_max_length_def check_word_count_def check_contains_character_def no_query_def
        eval_defs)
  have d: "validate_query 0 (no_query\<lparr>max_length_q := Some (js ''5abc'')\<rparr>)
      = Inr (no_filters\<lparr>max_length := Some (Num 5)\<rparr>)"
    by (simp add: validate_query_def check_is_palindrome_def check_min_length_def
        check_max_length_def check_word_count_def check_contains_character_def no_query_def
        eval_defs)
  show ?thesis
    unfolding a b c d by (simp add: get_strings_def getAll_def a Let_def)
qed

end
